theory Spec2Isabelle
  imports Complex_Main
begin

section \<open>Values of the JavaScript run time\<close>

text \<open>
  A value that is thrown, or with which a promise rejects: \<open>null\<close>/\<open>undefined\<close>, a
  string, or an \<open>Error\<close> object carrying a message.
\<close>

datatype thrown = Nullish | Str string | Err string

text \<open>\<open>err?.message\<close>: only an \<open>Error\<close> object has the property.\<close>

fun message_of :: "thrown \<Rightarrow> string option" where
  "message_of (Err m) = Some m"
| "message_of _ = None"

text \<open>
  The truth value JavaScript gives a string that may be \<open>undefined\<close>: \<open>undefined\<close> and
  the empty string are falsy, every other string is truthy.
\<close>

fun truthy :: "string option \<Rightarrow> bool" where
  "truthy None = False"
| "truthy (Some s) = (s \<noteq> [])"

text \<open>
  The body of a \<open>try\<close> block: the state it reached, and what it threw there, if anything.
  The writes made before the throw stay.
\<close>

type_synonym 's outcome = "'s \<times> thrown option"

definition try_catch :: "'s outcome \<Rightarrow> (thrown \<Rightarrow> 's \<Rightarrow> 's) \<Rightarrow> 's outcome" where
  "try_catch body handler =
     (case body of
        (s, None) \<Rightarrow> (s, None)
      | (s, Some e) \<Rightarrow> (handler e s, None))"

section \<open>The spot form (pages/spots/SpotForm)\<close>

subsection \<open>Data\<close>

text \<open>
  \<open>SpotInput\<close>, the type of the form's values. The form library holds them as a deep
  partial of the type (\<open>defaultValues\<close> may leave any of them \<open>undefined\<close>), so every
  field is an option here, \<open>None\<close> being \<open>undefined\<close>.
\<close>

record SpotInput =
  name :: "string option"
  state_id :: "string option"
  city_id :: "string option"
  category_id :: "string option"
  preview :: "string option"
  latitude :: "real option"
  longitude :: "real option"

text \<open>
  \<open>SpotByIdDTO\<close> is declared in the service layer; these are the properties the form
  reads. The nested objects are read through optional chaining in \<open>defaultValues\<close>, so
  they are options.
\<close>

record SpotState =
  spot_state_id :: string

record SpotCity =
  spot_city_id :: string
  spot_city_state :: "SpotState option"

record SpotCategory =
  spot_category_id :: string

record SpotByIdDTO =
  spot_name :: string
  spot_city :: "SpotCity option"
  spot_preview :: string
  spot_category :: "SpotCategory option"
  spot_longitude :: real
  spot_latitude :: real

text \<open>The \<open>defaultValues\<close> handed to \<open>useForm\<close>; \<open>a?.b\<close> is \<open>map_option\<close> or \<open>Option.bind\<close>.\<close>

definition defaultValues :: "SpotByIdDTO option \<Rightarrow> SpotInput" where
  "defaultValues spot =
     \<lparr> name = map_option spot_name spot,
       state_id = map_option spot_state_id
                    (Option.bind (Option.bind spot spot_city) spot_city_state),
       city_id = map_option spot_city_id (Option.bind spot spot_city),
       category_id = map_option spot_category_id (Option.bind spot spot_category),
       preview = map_option spot_preview spot,
       latitude = map_option spot_latitude spot,
       longitude = map_option spot_longitude spot \<rparr>"

subsection \<open>State of the component\<close>

text \<open>A reference-list entry (\<open>StateDTO\<close>, \<open>CityDTO\<close>, \<open>CategoryDTO\<close>): its id and its name.\<close>

type_synonym StateDTO = "string \<times> string"
type_synonym CityDTO = "string \<times> string"
type_synonym CategoryDTO = "string \<times> string"

text \<open>A browser \<open>File\<close>, by its name.\<close>

datatype File = File string

text \<open>An entry of the form library's \<open>formState.errors\<close>.\<close>

record FieldError =
  type :: string
  message :: "string option"

text \<open>The calls the form makes to the outside.\<close>

datatype request =
    StateService_getAll
  | StateService_getById "string option"
  | CategoryService_getAll int int
  | getLocation

text \<open>
  The form's values and errors (held by \<open>useForm\<close>), the three \<open>useState\<close> lists, the
  \<open>file\<close> state of the parent (written through \<open>setFile\<close>), and what the component has done to
  the outside so far: the toasts shown, the calls started, and the payloads with which
  \<open>onSubmit\<close> was invoked, each in order.
\<close>

record SpotFormState =
  fieldValues :: SpotInput
  errors :: "string \<rightharpoonup> FieldError"
  states :: "StateDTO list"
  cities :: "CityDTO list"
  categories :: "CategoryDTO list"
  file_state :: "File option"
  toasts :: "thrown list"
  requests :: "request list"
  submitted :: "SpotInput list"

text \<open>\<open>toast.error((error as string) ?? fallback)\<close>.\<close>

definition toast_error :: "thrown \<Rightarrow> string \<Rightarrow> SpotFormState \<Rightarrow> SpotFormState" where
  "toast_error error fallback st =
     st\<lparr>toasts := toasts st @ [case error of Nullish \<Rightarrow> Str fallback | _ \<Rightarrow> error]\<rparr>"

definition call :: "request \<Rightarrow> SpotFormState \<Rightarrow> SpotFormState" where
  "call r st = st\<lparr>requests := requests st @ [r]\<rparr>"

subsection \<open>Loading the reference lists\<close>

text \<open>
  Each asynchronous action is two steps: the call it starts, and the rest of its body,
  run when the awaited promise settles with a rejection (\<open>Inl\<close>) or a response (\<open>Inr\<close>).
\<close>

definition getCities_request :: "SpotFormState \<Rightarrow> SpotFormState" where
  "getCities_request st = call (StateService_getById (state_id (fieldValues st))) st"

definition getCities :: "thrown + CityDTO list \<Rightarrow> SpotFormState \<Rightarrow> SpotFormState outcome" where
  "getCities settled st =
     try_catch
       (case settled of
          Inl error \<Rightarrow> (st, Some error)
        | Inr data_cities \<Rightarrow> (st\<lparr>cities := data_cities\<rparr>, None))
       (\<lambda>error. toast_error error ''Ocorreu um erro ao listar cidades.'')"

text \<open>The effect on \<open>[stateId]\<close>: \<open>if (stateId) getCities()\<close>.\<close>

definition stateId_effect :: "SpotFormState \<Rightarrow> SpotFormState" where
  "stateId_effect st =
     (if truthy (state_id (fieldValues st)) then getCities_request st else st)"

text \<open>
  \<open>setValue("state_id", v)\<close>, and likewise \<open>field.onChange(v)\<close> of the state selector:
  the value is written, the component renders again, and the effect on \<open>[stateId]\<close> runs
  if the watched value is no longer the same. (After a first submit the library may
  also validate again on a change; that writes \<open>errors\<close> only and is not part of this
  definition.)
\<close>

definition setValue_state_id :: "string option \<Rightarrow> SpotFormState \<Rightarrow> SpotFormState" where
  "setValue_state_id v st =
     (let st' = st\<lparr>fieldValues := (fieldValues st)\<lparr>state_id := v\<rparr>\<rparr>
      in if v \<noteq> state_id (fieldValues st) then stateId_effect st' else st')"

definition getStates_request :: "SpotFormState \<Rightarrow> SpotFormState" where
  "getStates_request st = call StateService_getAll st"

text \<open>
  \<open>spot.city.state.id\<close> is read without optional chaining: a missing \<open>city\<close> or \<open>state\<close>
  throws a \<open>TypeError\<close> inside the \<open>try\<close>, after \<open>setStates\<close>.
\<close>

definition getStates ::
  "SpotByIdDTO option \<Rightarrow> thrown + StateDTO list \<Rightarrow> SpotFormState \<Rightarrow> SpotFormState outcome"
where
  "getStates spot settled st =
     try_catch
       (case settled of
          Inl error \<Rightarrow> (st, Some error)
        | Inr data \<Rightarrow>
            (let st1 = st\<lparr>states := data\<rparr>
             in case spot of
                  None \<Rightarrow> (st1, None)
                | Some s \<Rightarrow>
                    (case Option.bind (spot_city s) spot_city_state of
                       None \<Rightarrow> (st1, Some (Err ''TypeError''))
                     | Some t \<Rightarrow> (setValue_state_id (Some (spot_state_id t)) st1, None))))
       (\<lambda>error. toast_error error ''Ocorreu um erro ao listar estados.'')"

definition getCategories_request :: "SpotFormState \<Rightarrow> SpotFormState" where
  "getCategories_request st = call (CategoryService_getAll 1 9999) st"

definition getCategories ::
  "thrown + CategoryDTO list \<Rightarrow> SpotFormState \<Rightarrow> SpotFormState outcome"
where
  "getCategories settled st =
     try_catch
       (case settled of
          Inl error \<Rightarrow> (st, Some error)
        | Inr data \<Rightarrow> (st\<lparr>categories := data\<rparr>, None))
       (\<lambda>error. toast_error error ''Ocorreu um erro ao listar categorias.'')"

text \<open>
  \<open>register\<close> on a text input: when the input is attached, a value that is \<open>undefined\<close>
  is replaced by what the input holds, the empty text.
\<close>

fun register_text :: "string option \<Rightarrow> string option" where
  "register_text None = Some []"
| "register_text (Some s) = Some s"

text \<open>
  The first render: the form starts from \<open>defaultValues\<close>, the registered inputs are
  attached, then the effects run in the order they are declared, the one on \<open>[stateId]\<close>
  first, then the one on \<open>[]\<close>, which starts \<open>getCategories\<close> and then \<open>getStates\<close>. Of
  the three registered inputs, \<open>name\<close> is a text; \<open>latitude\<close> and \<open>longitude\<close> are typed
  as numbers here, and an input left blank, which is no number, is \<open>None\<close>. The three
  selectors are controlled fields and keep their defaults.
\<close>

definition mount :: "SpotByIdDTO option \<Rightarrow> File option \<Rightarrow> SpotFormState" where
  "mount spot f =
     getStates_request (getCategories_request (stateId_effect
       \<lparr> fieldValues = (defaultValues spot)\<lparr>name := register_text (name (defaultValues spot))\<rparr>,
         errors = Map.empty,
         states = [], cities = [], categories = [], file_state = f,
         toasts = [], requests = [], submitted = [] \<rparr>))"

subsection \<open>What is rendered\<close>

text \<open>\<open>disabled={!stateId}\<close> on the city selector.\<close>

definition city_disabled :: "SpotFormState \<Rightarrow> bool" where
  "city_disabled st = (\<not> truthy (state_id (fieldValues st)))"

text \<open>The thumbnail: the image at \<open>preview\<close> with \<open>name\<close> as its text, or the icon.\<close>

datatype thumbnail = Img string "string option" | ImageIcon

definition thumbnail :: "SpotFormState \<Rightarrow> thumbnail" where
  "thumbnail st =
     (case preview (fieldValues st) of
        None \<Rightarrow> ImageIcon
      | Some src \<Rightarrow> if src \<noteq> [] then Img src (name (fieldValues st)) else ImageIcon)"

subsection \<open>Validation and submission\<close>

text \<open>
  A resolver, as the form library calls it: from the form's values to the validated
  values and the errors by field. The values pass when there is no error.
\<close>

type_synonym resolver = "SpotInput \<Rightarrow> SpotInput \<times> (string \<rightharpoonup> FieldError)"

text \<open>
  \<open>handleSubmit(onSubmit)\<close> of the form library, the form's \<open>onSubmit\<close> handler: it runs
  the resolver on the current values, stores the errors it returns, and invokes
  \<open>onSubmit\<close> with the validated values if and only if there is none.
\<close>

definition handleSubmit :: "resolver \<Rightarrow> SpotFormState \<Rightarrow> SpotFormState" where
  "handleSubmit resolver st =
     (case resolver (fieldValues st) of
        (validated, errs) \<Rightarrow>
          if errs = Map.empty
          then st\<lparr>errors := errs, submitted := submitted st @ [validated]\<rparr>
          else st\<lparr>errors := errs\<rparr>)"

text \<open>
  A schema of the validation library, validated without stopping at the first error:
  the value it accepts, or the errors (path and error) it collected.
\<close>

type_synonym schema = "SpotInput \<Rightarrow> (string \<times> FieldError) list + SpotInput"

definition no_values :: SpotInput where
  "no_values =
     \<lparr> name = None, state_id = None, city_id = None, category_id = None,
       preview = None, latitude = None, longitude = None \<rparr>"

text \<open>
  \<open>yupResolver(schema)\<close>: the accepted value with no error, or no value and, for each
  path, the first error collected for it.
\<close>

definition yupResolver :: "schema \<Rightarrow> resolver" where
  "yupResolver sch v =
     (case sch v of
        Inr accepted \<Rightarrow> (accepted, Map.empty)
      | Inl inner \<Rightarrow> (no_values, map_of inner))"

text \<open>
  Modelled from the spec: \<open>spotSchema\<close> of \<open>./schema\<close>, which is not among the sources.
  The spec says that form validation rejects a latitude outside \<open>[-90, 90]\<close>, and the
  \<open>min\<close> and \<open>max\<close> of the latitude input repeat that range. Every other rule of the
  schema is the parameter \<open>rules\<close>; the texts of the two messages are not specified, and
  are the validation library's defaults here.
\<close>

definition latitude_range :: "SpotInput \<Rightarrow> (string \<times> FieldError) list" where
  "latitude_range v =
     (case latitude v of
        None \<Rightarrow> []
      | Some x \<Rightarrow>
          if x < - 90 then
            [(''latitude'',
              \<lparr>type = ''min'',
               message = Some ''latitude must be greater than or equal to -90''\<rparr>)]
          else if 90 < x then
            [(''latitude'',
              \<lparr>type = ''max'',
               message = Some ''latitude must be less than or equal to 90''\<rparr>)]
          else [])"

definition spotSchema :: "(SpotInput \<Rightarrow> (string \<times> FieldError) list) \<Rightarrow> schema" where
  "spotSchema rules v =
     (let inner = rules v @ latitude_range v
      in if inner = [] then Inr v else Inl inner)"

subsection \<open>The buttons\<close>

datatype button = Localizacao_atual | Cancelar | Salvar

datatype button_type = Type_submit | Type_button | Type_reset

text \<open>The \<open>type\<close> attribute each button is written with, if any.\<close>

fun type_attr :: "button \<Rightarrow> button_type option" where
  "type_attr Localizacao_atual = None"
| "type_attr Cancelar = Some Type_submit"
| "type_attr Salvar = Some Type_submit"

definition getCurrentLocation_request :: "SpotFormState \<Rightarrow> SpotFormState" where
  "getCurrentLocation_request st = call getLocation st"

text \<open>
  The rest of \<open>getCurrentLocation\<close>, run when \<open>getLocation\<close> (of the utilities, not among
  the sources) settles, with a rejection or with a latitude and a longitude. The
  text of the toast is written in UTF-8, two bytes for each of its two letters outside
  ASCII.
\<close>

definition getCurrentLocation ::
  "thrown + real \<times> real \<Rightarrow> SpotFormState \<Rightarrow> SpotFormState outcome"
where
  "getCurrentLocation settled st =
     try_catch
       (case settled of
          Inl error \<Rightarrow> (st, Some error)
        | Inr (lat, lon) \<Rightarrow>
            (st\<lparr>fieldValues := (fieldValues st)\<lparr>latitude := Some lat, longitude := Some lon\<rparr>\<rparr>,
             None))
       (\<lambda>error. toast_error error
          (''Ocorreu um erro ao buscar localiza'' @ [CHR 0xC3, CHR 0xA7, CHR 0xC3, CHR 0xA3]
           @ ''o.''))"

text \<open>The \<open>onClick\<close> handler each button is written with: only the first has one.\<close>

fun onClick :: "button \<Rightarrow> SpotFormState \<Rightarrow> SpotFormState" where
  "onClick Localizacao_atual st = getCurrentLocation_request st"
| "onClick Cancelar st = st"
| "onClick Salvar st = st"

text \<open>
  A click on a button inside the form: its own handler runs, then a button of type
  submit submits the form, which runs the form's \<open>onSubmit\<close> handler. The type of a
  button written without one is decided by the \<open>Button\<close> component, which is not among
  the sources: it is the parameter \<open>default_type\<close>. No button here is of type reset (a
  reset would restore the inputs natively, outside the form library's state).
\<close>

definition click :: "button_type \<Rightarrow> resolver \<Rightarrow> button \<Rightarrow> SpotFormState \<Rightarrow> SpotFormState" where
  "click default_type resolver b st =
     (let st1 = onClick b st;
          t = (case type_attr b of Some t \<Rightarrow> t | None \<Rightarrow> default_type)
      in if t = Type_submit then handleSubmit resolver st1 else st1)"

subsection \<open>The image input\<close>

text \<open>The \<open>catch\<close> block of the input's \<open>onChange\<close>.\<close>

definition onChange_catch :: "thrown \<Rightarrow> SpotFormState \<Rightarrow> SpotFormState" where
  "onChange_catch error st =
     st\<lparr>errors := (errors st)(''preview'' \<mapsto> \<lparr>type = ''custom'', message = message_of error\<rparr>),
        file_state := None\<rparr>"

text \<open>
  The \<open>onChange\<close> handler of the image input. \<open>files\<close> is \<open>e.target?.files\<close>, whose first
  entry may be missing. \<open>validateFile\<close> (of the utilities, not among the sources) is a
  parameter: what it throws for a file, if anything. \<open>URL.createObjectURL\<close> is a
  parameter on files, and throws a \<open>TypeError\<close> when it is given \<open>undefined\<close>.
\<close>

definition onChange ::
  "(File option \<Rightarrow> thrown option) \<Rightarrow> (File \<Rightarrow> string) \<Rightarrow> File list \<Rightarrow>
   SpotFormState \<Rightarrow> SpotFormState outcome"
where
  "onChange validateFile createObjectURL files st =
     try_catch
       (let currentFile = (case files of [] \<Rightarrow> None | f # _ \<Rightarrow> Some f)
        in case validateFile currentFile of
             Some error \<Rightarrow> (st, Some error)
           | None \<Rightarrow>
               (let st1 = st\<lparr>file_state := currentFile\<rparr>
                in case currentFile of
                     None \<Rightarrow> (st1, Some (Err ''TypeError''))
                   | Some f \<Rightarrow>
                       (st1\<lparr>fieldValues :=
                              (fieldValues st1)\<lparr>preview := Some (createObjectURL f)\<rparr>,
                            errors := (errors st1)(''preview'' := None)\<rparr>,
                        None)))
       onChange_catch"

section \<open>The locations page (pages/Locations)\<close>

record MetaPagination =
  page :: int
  limit :: int
  total :: int
  totalPages :: int

text \<open>The columns of the table name the properties of a \<open>LocationDTO\<close>.\<close>

record LocationDTO =
  location_id :: string
  location_name :: string
  location_city :: string
  location_state :: string

text \<open>
  What \<open>usePagination\<close> returns (the hook is not among the sources): \<open>page\<close> and \<open>limit\<close>,
  and the \<open>pagination\<close> state handed to the table.
\<close>

record PaginationState =
  pageIndex :: int
  pageSize :: int

record Pagination =
  page :: int
  limit :: int
  pagination :: PaginationState

text \<open>A list response of the service: the records as they arrive, and \<open>meta\<close>.\<close>

record 'raw ListResponse =
  data :: "'raw list"
  meta :: MetaPagination

record LocationsState =
  hook :: Pagination
  locations :: "LocationDTO list"
  meta :: MetaPagination

definition Locations_init :: "Pagination \<Rightarrow> LocationsState" where
  "Locations_init h =
     \<lparr> hook = h, locations = [],
       meta = \<lparr> MetaPagination.page = 0, limit = 0, total = 0, totalPages = 0 \<rparr> \<rparr>"

text \<open>
  \<open>z.array(locationSchema).parse\<close>: every element parsed by the element schema (a
  parameter, \<open>./schema\<close> is not among the sources; \<open>None\<close> where it rejects), or a
  \<open>ZodError\<close> thrown.
\<close>

definition z_array_parse :: "('raw \<Rightarrow> 'a option) \<Rightarrow> 'raw list \<Rightarrow> thrown + 'a list" where
  "z_array_parse element xs =
     (case those (map element xs) of
        None \<Rightarrow> Inl (Err ''ZodError'')
      | Some ys \<Rightarrow> Inr ys)"

text \<open>
  The rest of \<open>getLocations\<close>, run when the call settles. There is no \<open>try\<close> around it:
  a rejection, and a \<open>ZodError\<close>, leave the function as they are.
\<close>

definition getLocations ::
  "('raw \<Rightarrow> LocationDTO option) \<Rightarrow> thrown + 'raw ListResponse \<Rightarrow>
   LocationsState \<Rightarrow> LocationsState outcome"
where
  "getLocations locationSchema settled st =
     (case settled of
        Inl error \<Rightarrow> (st, Some error)
      | Inr response \<Rightarrow>
          (case z_array_parse locationSchema (data response) of
             Inl error \<Rightarrow> (st, Some error)
           | Inr parsed \<Rightarrow>
               (st\<lparr>locations := parsed, meta := ListResponse.meta response\<rparr>, None)))"

text \<open>
  The states the page goes through: it starts with whatever the hook returns first; the
  hook may return another page or limit; a call of \<open>getLocations\<close> may settle, at any
  time and with anything.
\<close>

inductive reachable :: "('raw \<Rightarrow> LocationDTO option) \<Rightarrow> LocationsState \<Rightarrow> bool"
  for locationSchema :: "'raw \<Rightarrow> LocationDTO option"
where
  reachable_init: "reachable locationSchema (Locations_init h)"
| reachable_paginate:
    "reachable locationSchema st \<Longrightarrow> reachable locationSchema (st\<lparr>hook := h\<rparr>)"
| reachable_settled:
    "reachable locationSchema st \<Longrightarrow>
     reachable locationSchema (fst (getLocations locationSchema settled st))"

section \<open>Sample inputs\<close>

text \<open>Concrete values at which the theorems below are instantiated.\<close>

definition example_spot :: SpotByIdDTO where
  "example_spot =
     \<lparr> spot_name = ''Praia'',
       spot_city = Some \<lparr> spot_city_id = ''c1'',
                          spot_city_state = Some \<lparr> spot_state_id = ''SP'' \<rparr> \<rparr>,
       spot_preview = ''http://img/1.png'',
       spot_category = Some \<lparr> spot_category_id = ''k1'' \<rparr>,
       spot_longitude = - 46,
       spot_latitude = - 23 \<rparr>"

text \<open>A resolver with one rule: the name is required.\<close>

definition name_required :: resolver where
  "name_required v =
     (if truthy (name v) then (v, Map.empty)
      else (no_values, [''name'' \<mapsto> \<lparr>type = ''required'', message = None\<rparr>]))"

text \<open>A form whose latitude was typed as 120.\<close>

definition latitude_120 :: SpotFormState where
  "latitude_120 =
     (mount (Some example_spot) None)
       \<lparr>fieldValues := (defaultValues (Some example_spot))\<lparr>latitude := Some 120\<rparr>\<rparr>"

text \<open>A \<open>validateFile\<close> that wants a file with a name.\<close>

fun named_file :: "File option \<Rightarrow> thrown option" where
  "named_file None = Some (Err ''Nenhum arquivo selecionado'')"
| "named_file (Some (File n)) = (if n = [] then Some (Err ''Arquivo sem nome'') else None)"

fun blob_url :: "File \<Rightarrow> string" where
  "blob_url (File n) = ''blob:'' @ n"

text \<open>An element schema on records that arrive as lists of strings: it wants four.\<close>

fun four_strings :: "string list \<Rightarrow> LocationDTO option" where
  "four_strings [i, n, c, s] =
     Some \<lparr> location_id = i, location_name = n, location_city = c, location_state = s \<rparr>"
| "four_strings _ = None"

definition third_page :: Pagination where
  "third_page = \<lparr> page = 2, limit = 10, pagination = \<lparr> pageIndex = 2, pageSize = 10 \<rparr> \<rparr>"

definition one_location :: "string list ListResponse" where
  "one_location =
     \<lparr> data = [[''7'', ''Praia'', ''Santos'', ''SP'']],
       meta = \<lparr> MetaPagination.page = 3, limit = 10, total = 21, totalPages = 3 \<rparr> \<rparr>"

section \<open>Helper lemmas\<close>

lemma mount_fieldValues:
  "fieldValues (mount spot f) =
     (defaultValues spot)\<lparr>name := register_text (name (defaultValues spot))\<rparr>"
  by (simp add: mount_def getStates_request_def getCategories_request_def
        stateId_effect_def getCities_request_def call_def)

lemma mount_submitted: "submitted (mount spot f) = []"
  by (simp add: mount_def getStates_request_def getCategories_request_def
        stateId_effect_def getCities_request_def call_def)

lemma defaultValues_None: "defaultValues None = no_values"
  by (simp add: defaultValues_def no_values_def)

lemma defaultValues_example_spot:
  "defaultValues (Some example_spot) =
     \<lparr> name = Some ''Praia'', state_id = Some ''SP'', city_id = Some ''c1'',
       category_id = Some ''k1'', preview = Some ''http://img/1.png'',
       latitude = Some (- 23), longitude = Some (- 46) \<rparr>"
  by (simp add: defaultValues_def example_spot_def)

lemma latitude_range_out:
  "latitude v = Some x \<Longrightarrow> x < - 90 \<or> 90 < x \<Longrightarrow> \<exists>e. latitude_range v = [(''latitude'', e)]"
  by (auto simp: latitude_range_def)

lemma those_map_conform:
  "those (map element xs) = Some ys \<Longrightarrow> \<forall>y \<in> set ys. \<exists>x. element x = Some y"
proof (induction xs arbitrary: ys)
  case Nil
  then show ?case by simp
next
  case (Cons x xs)
  then show ?case by (auto split: option.splits)
qed

lemma z_array_parse_conform:
  "z_array_parse element xs = Inr ys \<Longrightarrow> \<forall>y \<in> set ys. \<exists>x. element x = Some y"
  by (auto simp: z_array_parse_def split: option.splits dest: those_map_conform)

lemma reachable_conform:
  "reachable locationSchema st \<Longrightarrow> \<forall>l \<in> set (locations st). \<exists>r. locationSchema r = Some l"
proof (induction rule: reachable.induct)
  case (reachable_init h)
  show ?case by (simp add: Locations_init_def)
next
  case (reachable_paginate st h)
  then show ?case by simp
next
  case (reachable_settled st settled)
  show ?case
  proof (cases settled)
    case (Inl error)
    with reachable_settled.IH show ?thesis by (simp add: getLocations_def)
  next
    case (Inr response)
    show ?thesis
    proof (cases "z_array_parse locationSchema (data response)")
      case (Inl error)
      with Inr reachable_settled.IH show ?thesis by (simp add: getLocations_def)
    next
      case parsed: (Inr ys)
      from z_array_parse_conform [OF parsed] Inr parsed show ?thesis
        by (simp add: getLocations_def)
    qed
  qed
qed

text \<open>
  The four asynchronous actions of the spot form let nothing out of their \<open>try\<close>, and
  show a rejection as a toast: the rejection itself, or the action's own text when the
  rejection carries nothing.
\<close>

lemma spot_form_actions_catch:
  "snd (getStates spot settled_states st) = None"
  "snd (getCities settled_cities st) = None"
  "snd (getCategories settled_categories st) = None"
  "snd (getCurrentLocation settled_location st) = None"
  by (simp_all add: getStates_def getCities_def getCategories_def getCurrentLocation_def
        try_catch_def Let_def split: sum.split option.split prod.split)

lemma spot_form_rejections_toast:
  "toasts (fst (getStates spot (Inl error) st)) =
     toasts st @ [case error of Nullish \<Rightarrow> Str ''Ocorreu um erro ao listar estados.'' | _ \<Rightarrow> error]"
  "toasts (fst (getCities (Inl error) st)) =
     toasts st @ [case error of Nullish \<Rightarrow> Str ''Ocorreu um erro ao listar cidades.'' | _ \<Rightarrow> error]"
  "toasts (fst (getCategories (Inl error) st)) =
     toasts st @
     [case error of Nullish \<Rightarrow> Str ''Ocorreu um erro ao listar categorias.'' | _ \<Rightarrow> error]"
  "toasts (fst (getCurrentLocation (Inl error) st)) =
     toasts st @
     [case error of
        Nullish \<Rightarrow>
          Str (''Ocorreu um erro ao buscar localiza'' @ [CHR 0xC3, CHR 0xA7, CHR 0xC3, CHR 0xA3]
               @ ''o.'')
      | _ \<Rightarrow> error]"
  by (simp_all add: getStates_def getCities_def getCategories_def getCurrentLocation_def
        try_catch_def toast_error_def split: thrown.split)

section \<open>Submission of the spot form\<close>

text \<open>
  Claim C1. Whenever the form is submitted, \<open>onSubmit\<close> is invoked, once and with the
  validated payload (a \<open>SpotInput\<close>), if the values pass the resolver, that is, if the
  resolver returns no error; if it returns an error, \<open>onSubmit\<close> is not invoked.
\<close>

theorem handleSubmit_invokes_onSubmit:
  assumes "resolver (fieldValues st) = (payload, errs)"
  shows "submitted (handleSubmit resolver st) =
           (if errs = Map.empty then submitted st @ [payload] else submitted st)"
  using assms by (simp add: handleSubmit_def)

theorem handleSubmit_invokes_onSubmit_witness:
  "name_required (fieldValues (mount (Some example_spot) None)) =
     (defaultValues (Some example_spot), Map.empty)
   \<and> submitted (handleSubmit name_required (mount (Some example_spot) None)) =
     [defaultValues (Some example_spot)]
   \<and> submitted (handleSubmit name_required (mount None None)) = []"
proof -
  have valid: "name_required (fieldValues (mount (Some example_spot) None)) =
                 (defaultValues (Some example_spot), Map.empty)"
    by (simp add: name_required_def mount_fieldValues defaultValues_example_spot)
  have invalid: "name_required (fieldValues (mount None None)) =
                   (no_values, [''name'' \<mapsto> \<lparr>type = ''required'', message = None\<rparr>])"
    by (simp add: name_required_def mount_fieldValues defaultValues_None no_values_def)
  show ?thesis
    using handleSubmit_invokes_onSubmit
            [of name_required "mount (Some example_spot) None", OF valid]
          handleSubmit_invokes_onSubmit [of name_required "mount None None", OF invalid]
          valid
    by (simp add: mount_submitted)
qed

text \<open>
  Claim C2. A latitude outside \<open>[-90, 90]\<close> is rejected by the form's validation: on
  submit, \<open>onSubmit\<close> is not invoked, and the latitude field has an error. The schema
  is the one modelled from the spec, with any other rules.
\<close>

theorem latitude_out_of_range_rejected:
  assumes "latitude (fieldValues st) = Some x" and "x < - 90 \<or> 90 < x"
  shows "submitted (handleSubmit (yupResolver (spotSchema rules)) st) = submitted st
       \<and> errors (handleSubmit (yupResolver (spotSchema rules)) st) ''latitude'' \<noteq> None"
proof -
  obtain e where e: "latitude_range (fieldValues st) = [(''latitude'', e)]"
    using latitude_range_out [OF assms] by blast
  let ?inner = "rules (fieldValues st) @ latitude_range (fieldValues st)"
  have "''latitude'' \<in> fst ` set ?inner" using e by simp
  then have lat: "map_of ?inner ''latitude'' \<noteq> None"
    by (simp only: map_of_eq_None_iff not_not)
  then have nonempty: "map_of ?inner \<noteq> Map.empty" by auto
  have r: "yupResolver (spotSchema rules) (fieldValues st) = (no_values, map_of ?inner)"
    using e by (simp add: yupResolver_def spotSchema_def Let_def)
  have "handleSubmit (yupResolver (spotSchema rules)) st = st\<lparr>errors := map_of ?inner\<rparr>"
    using nonempty by (simp add: handleSubmit_def r del: map_of_append)
  then show ?thesis using lat by (simp del: map_of_append)
qed

theorem latitude_out_of_range_rejected_witness:
  "latitude (fieldValues latitude_120) = Some 120
   \<and> submitted (handleSubmit (yupResolver (spotSchema (\<lambda>v. []))) latitude_120) = []
   \<and> errors (handleSubmit (yupResolver (spotSchema (\<lambda>v. []))) latitude_120) ''latitude'' \<noteq> None"
proof -
  have lat: "latitude (fieldValues latitude_120) = Some 120"
    by (simp add: latitude_120_def)
  have s0: "submitted latitude_120 = []"
    by (simp add: latitude_120_def mount_submitted)
  show ?thesis
    using latitude_out_of_range_rejected [OF lat, of "\<lambda>v. []"] lat by (simp add: s0)
qed

text \<open>
  Claim C8. The button "Cancelar" is written with type submit: a click on it does what
  a click on "Salvar" does, namely run \<open>handleSubmit(onSubmit)\<close>. No button of the form
  is a reset button, and no click on a button changes the form's values: nothing
  discards the form.
\<close>

theorem cancelar_submits:
  "type_attr Cancelar = Some Type_submit
   \<and> click default_type resolver Cancelar st = click default_type resolver Salvar st
   \<and> click default_type resolver Cancelar st = handleSubmit resolver st
   \<and> (\<forall>b. type_attr b \<noteq> Some Type_reset
          \<and> fieldValues (click default_type resolver b st) = fieldValues st)"
proof -
  have "type_attr b \<noteq> Some Type_reset
        \<and> fieldValues (click default_type resolver b st) = fieldValues st" for b
    by (cases b)
       (simp_all add: click_def handleSubmit_def getCurrentLocation_request_def call_def
          Let_def split: prod.split)
  then show ?thesis by (simp add: click_def)
qed

theorem cancelar_submits_witness:
  "submitted (click Type_button name_required Cancelar (mount (Some example_spot) None)) =
     [defaultValues (Some example_spot)]
   \<and> click Type_button name_required Salvar (mount (Some example_spot) None) =
     click Type_button name_required Cancelar (mount (Some example_spot) None)"
proof -
  have "submitted (handleSubmit name_required (mount (Some example_spot) None)) =
          [defaultValues (Some example_spot)]"
    by (simp add: handleSubmit_def name_required_def mount_fieldValues mount_submitted
          defaultValues_example_spot)
  moreover have "click Type_button name_required Cancelar (mount (Some example_spot) None) =
                   handleSubmit name_required (mount (Some example_spot) None)"
    and "click Type_button name_required Salvar (mount (Some example_spot) None) =
         click Type_button name_required Cancelar (mount (Some example_spot) None)"
    using cancelar_submits [of Type_button name_required "mount (Some example_spot) None"]
    by metis+
  ultimately show ?thesis by simp
qed

section \<open>The selectors and the reference lists\<close>

text \<open>
  Claim C3. In every state of the form, the city selector is disabled if and only if
  no state is chosen (\<open>state_id\<close> is \<open>undefined\<close> or the empty string); once a state is
  chosen, the selector is enabled.
\<close>

theorem city_disabled_iff_no_state:
  "(city_disabled st \<longleftrightarrow>
      state_id (fieldValues st) = None \<or> state_id (fieldValues st) = Some [])
   \<and> (s \<noteq> [] \<longrightarrow> \<not> city_disabled (setValue_state_id (Some s) st))"
  by (cases "state_id (fieldValues st)")
     (auto simp: city_disabled_def setValue_state_id_def stateId_effect_def
                 getCities_request_def call_def Let_def)

theorem city_disabled_iff_no_state_witness:
  "city_disabled (mount None None)
   \<and> \<not> city_disabled (setValue_state_id (Some ''SP'') (mount None None))"
proof -
  have "state_id (fieldValues (mount None None)) = None"
    by (simp add: mount_fieldValues defaultValues_None no_values_def)
  then show ?thesis
    using city_disabled_iff_no_state [of "mount None None" "''SP''"] by simp
qed

text \<open>
  Claim C5, as amended. States and categories are fetched once, on mount, and by
  nothing else. The cities are fetched on mount when the form starts with a non-empty
  \<open>state_id\<close>, and afterwards exactly when \<open>state_id\<close> changes to a non-empty value; a
  change to an empty value fetches nothing. \<open>getStates\<close> starts a call only through the
  \<open>state_id\<close> it writes; the other two loaders, a submit and the image input start none.
\<close>

theorem reference_lists_loading:
  "requests (mount spot f) =
     (if truthy (state_id (defaultValues spot))
      then [StateService_getById (state_id (defaultValues spot))] else [])
     @ [CategoryService_getAll 1 9999, StateService_getAll]
   \<and> requests (setValue_state_id v st) =
     requests st @
     (if v \<noteq> state_id (fieldValues st) \<and> truthy v then [StateService_getById v] else [])
   \<and> requests (fst (getStates spot settled_states st)) =
     (case settled_states of
        Inl error \<Rightarrow> requests st
      | Inr listed \<Rightarrow>
          (case Option.bind (Option.bind spot spot_city) spot_city_state of
             None \<Rightarrow> requests st
           | Some t \<Rightarrow> requests (setValue_state_id (Some (spot_state_id t)) (st\<lparr>states := listed\<rparr>))))
   \<and> requests (fst (getCities settled_cities st)) = requests st
   \<and> requests (fst (getCategories settled_categories st)) = requests st
   \<and> requests (handleSubmit resolver st) = requests st
   \<and> requests (fst (onChange validateFile createObjectURL files st)) = requests st"
proof -
  have "requests (mount spot f) =
          (if truthy (state_id (defaultValues spot))
           then [StateService_getById (state_id (defaultValues spot))] else [])
          @ [CategoryService_getAll 1 9999, StateService_getAll]"
    by (simp add: mount_def stateId_effect_def getCities_request_def
          getCategories_request_def getStates_request_def call_def)
  moreover have "requests (setValue_state_id v st) =
          requests st @
          (if v \<noteq> state_id (fieldValues st) \<and> truthy v then [StateService_getById v] else [])"
    by (simp add: setValue_state_id_def stateId_effect_def getCities_request_def call_def
          Let_def)
  moreover have "requests (fst (getStates spot settled_states st)) =
     (case settled_states of
        Inl error \<Rightarrow> requests st
      | Inr listed \<Rightarrow>
          (case Option.bind (Option.bind spot spot_city) spot_city_state of
             None \<Rightarrow> requests st
           | Some t \<Rightarrow> requests (setValue_state_id (Some (spot_state_id t)) (st\<lparr>states := listed\<rparr>))))"
    by (cases spot)
       (simp_all add: getStates_def try_catch_def toast_error_def Let_def
          split: sum.split option.split)
  moreover have "requests (fst (getCities settled_cities st)) = requests st"
    by (simp add: getCities_def try_catch_def toast_error_def split: sum.split)
  moreover have "requests (fst (getCategories settled_categories st)) = requests st"
    by (simp add: getCategories_def try_catch_def toast_error_def split: sum.split)
  moreover have "requests (handleSubmit resolver st) = requests st"
    by (simp add: handleSubmit_def split: prod.split)
  moreover have "requests (fst (onChange validateFile createObjectURL files st)) = requests st"
    by (simp add: onChange_def try_catch_def onChange_catch_def Let_def
          split: option.split list.split)
  ultimately show ?thesis by (simp only: simp_thms)
qed

theorem reference_lists_loading_witness:
  "requests (mount None None) = [CategoryService_getAll 1 9999, StateService_getAll]
   \<and> requests (setValue_state_id (Some ''SP'') (mount None None)) =
     [CategoryService_getAll 1 9999, StateService_getAll, StateService_getById (Some ''SP'')]"
proof -
  have "state_id (fieldValues (mount None None)) = None"
    by (simp add: mount_fieldValues defaultValues_None no_values_def)
  then show ?thesis
    using reference_lists_loading [of None None "Some ''SP''" "mount None None"]
    by (simp add: defaultValues_None no_values_def)
qed

text \<open>
  The claim as it was first stated, that the cities are fetched on every change of
  \<open>state_id\<close>, and exactly when it changes to a non-empty value, fails twice on a form
  opened on the sample spot: the cities of "SP" are fetched on mount, before any change
  of \<open>state_id\<close>; and the change of \<open>state_id\<close> from "SP" to \<open>undefined\<close> fetches nothing.
\<close>

theorem cities_fetch_counterexample:
  "requests (mount (Some example_spot) None) =
     [StateService_getById (Some ''SP''), CategoryService_getAll 1 9999, StateService_getAll]
   \<and> state_id (fieldValues (mount (Some example_spot) None)) = Some ''SP''
   \<and> state_id (fieldValues (setValue_state_id None (mount (Some example_spot) None))) = None
   \<and> requests (setValue_state_id None (mount (Some example_spot) None)) =
     requests (mount (Some example_spot) None)"
  by (simp add: mount_def defaultValues_example_spot stateId_effect_def
        getCities_request_def getCategories_request_def getStates_request_def call_def
        setValue_state_id_def Let_def)

text \<open>
  Claim C7. Opened on a spot, the form's default values are the spot's: \<open>name\<close>,
  \<open>preview\<close>, \<open>latitude\<close> and \<open>longitude\<close> of the spot, \<open>city_id\<close> from \<open>spot.city.id\<close>,
  \<open>state_id\<close> from \<open>spot.city.state.id\<close>, \<open>category_id\<close> from \<open>spot.category.id\<close>; opened
  on no spot, every default is \<open>undefined\<close>. When the states have loaded, \<open>getStates\<close>
  writes the spot's state again, and \<open>state_id\<close> is still that of the spot.
\<close>

theorem defaultValues_bound_to_spot:
  assumes "spot_city s = Some c" and "spot_city_state c = Some t"
    and "spot_category s = Some k"
  shows "defaultValues (Some s) =
      \<lparr> name = Some (spot_name s), state_id = Some (spot_state_id t),
        city_id = Some (spot_city_id c), category_id = Some (spot_category_id k),
        preview = Some (spot_preview s), latitude = Some (spot_latitude s),
        longitude = Some (spot_longitude s) \<rparr>
    \<and> defaultValues None =
      \<lparr> name = None, state_id = None, city_id = None, category_id = None,
        preview = None, latitude = None, longitude = None \<rparr>
    \<and> state_id (fieldValues (fst (getStates (Some s) (Inr listed) (mount (Some s) f)))) =
      Some (spot_state_id t)"
  using assms
  by (simp add: defaultValues_def getStates_def try_catch_def setValue_state_id_def
        mount_def stateId_effect_def getCities_request_def call_def getStates_request_def
        getCategories_request_def Let_def)

theorem defaultValues_bound_to_spot_witness:
  "defaultValues (Some example_spot) =
     \<lparr> name = Some ''Praia'', state_id = Some ''SP'', city_id = Some ''c1'',
       category_id = Some ''k1'', preview = Some ''http://img/1.png'',
       latitude = Some (- 23), longitude = Some (- 46) \<rparr>
   \<and> state_id (fieldValues (fst (getStates (Some example_spot) (Inr [(''SP'', ''Sao Paulo'')])
         (mount (Some example_spot) None)))) = Some ''SP''"
  using defaultValues_bound_to_spot
          [of example_spot
              "\<lparr> spot_city_id = ''c1'', spot_city_state = Some \<lparr> spot_state_id = ''SP'' \<rparr> \<rparr>"
              "\<lparr> spot_state_id = ''SP'' \<rparr>" "\<lparr> spot_category_id = ''k1'' \<rparr>"
              "[(''SP'', ''Sao Paulo'')]" None]
  by (simp add: example_spot_def)

text \<open>
  Claim C9. When the chosen file fails \<open>validateFile\<close>, the handler sets the file state
  to \<open>undefined\<close> and puts a custom error on the preview field, and leaves the preview
  value as it was: the thumbnail shown before is still shown.
\<close>

theorem invalid_file_keeps_preview:
  assumes "validateFile (case files of [] \<Rightarrow> None | f # _ \<Rightarrow> Some f) = Some error"
  shows "file_state (fst (onChange validateFile createObjectURL files st)) = None
       \<and> errors (fst (onChange validateFile createObjectURL files st)) ''preview'' =
           Some \<lparr>type = ''custom'', message = message_of error\<rparr>
       \<and> preview (fieldValues (fst (onChange validateFile createObjectURL files st))) =
           preview (fieldValues st)
       \<and> thumbnail (fst (onChange validateFile createObjectURL files st)) = thumbnail st"
  using assms
  by (simp add: onChange_def try_catch_def onChange_catch_def thumbnail_def Let_def
        split: option.split)

theorem invalid_file_keeps_preview_witness:
  "named_file (case [File []] of [] \<Rightarrow> None | f # _ \<Rightarrow> Some f) = Some (Err ''Arquivo sem nome'')
   \<and> file_state (fst (onChange named_file blob_url [File []]
        (mount (Some example_spot) (Some (File ''a.png''))))) = None
   \<and> thumbnail (fst (onChange named_file blob_url [File []]
        (mount (Some example_spot) (Some (File ''a.png''))))) =
     Img ''http://img/1.png'' (Some ''Praia'')"
proof -
  have v: "named_file (case [File []] of [] \<Rightarrow> None | f # _ \<Rightarrow> Some f) =
             Some (Err ''Arquivo sem nome'')"
    by simp
  have t: "thumbnail (mount (Some example_spot) (Some (File ''a.png''))) =
             Img ''http://img/1.png'' (Some ''Praia'')"
    by (simp add: thumbnail_def mount_fieldValues defaultValues_example_spot)
  show ?thesis
    using invalid_file_keeps_preview
            [where validateFile = named_file and files = "[File []]"
               and error = "Err ''Arquivo sem nome''" and createObjectURL = blob_url
               and st = "mount (Some example_spot) (Some (File ''a.png''))"] v t
    by simp
qed

section \<open>The locations page\<close>

text \<open>
  Claim C4, at the input where the code departs from it. When the call of
  \<open>LocationService.getAll\<close> rejects, \<open>getLocations\<close> catches nothing: the rejection
  leaves the action, and the page is as it was.
\<close>

theorem getLocations_rejection_escapes:
  "getLocations four_strings (Inl (Str ''Network Error'')) (Locations_init third_page) =
     (Locations_init third_page, Some (Str ''Network Error''))"
  by (simp add: getLocations_def)

text \<open>
  Claim C6. \<open>locations\<close> is assigned only what \<open>z.array(locationSchema)\<close> parsed, together
  with \<open>meta\<close> from the response's \<open>meta\<close>; a response that does not parse assigns
  nothing. So in every reachable state of the page, every record of \<open>locations\<close> is a
  record the schema produced.
\<close>

theorem locations_schema_conformant:
  assumes "reachable locationSchema st"
  shows "(\<forall>l \<in> set (locations st). \<exists>r. locationSchema r = Some l)
       \<and> (\<forall>response parsed.
            z_array_parse locationSchema (data response) = Inr parsed \<longrightarrow>
            getLocations locationSchema (Inr response) st =
              (st\<lparr>locations := parsed, meta := ListResponse.meta response\<rparr>, None))
       \<and> (\<forall>response error.
            z_array_parse locationSchema (data response) = Inl error \<longrightarrow>
            fst (getLocations locationSchema (Inr response) st) = st)"
  using reachable_conform [OF assms] by (simp add: getLocations_def)

theorem locations_schema_conformant_witness:
  "reachable four_strings
     (fst (getLocations four_strings (Inr one_location) (Locations_init third_page)))
   \<and> locations (fst (getLocations four_strings (Inr one_location) (Locations_init third_page))) =
     [\<lparr> location_id = ''7'', location_name = ''Praia'', location_city = ''Santos'',
        location_state = ''SP'' \<rparr>]
   \<and> four_strings [''7'', ''Praia'', ''Santos'', ''SP''] =
     Some \<lparr> location_id = ''7'', location_name = ''Praia'', location_city = ''Santos'',
            location_state = ''SP'' \<rparr>"
proof -
  have r: "reachable four_strings
             (fst (getLocations four_strings (Inr one_location) (Locations_init third_page)))"
    by (rule reachable_settled [OF reachable_init])
  show ?thesis
    using locations_schema_conformant [OF r] r
    by (simp add: getLocations_def z_array_parse_def one_location_def)
qed

end
